theory Spec2Isabelle
  imports Main "HOL-Library.Word"
begin

section \<open>Python values used by \<open>fpga_builder/utils.py\<close>\<close>

text \<open>
  A Python \<open>str\<close> handed to the module by its caller (a command line, a version, a line typed
  at the terminal) is a \<^typ>\<open>string\<close>: a list of characters with code points below 256.
  Text obtained by decoding the bytes of a child process is a list of Unicode code points
  (\<open>ustr\<close>), since UTF-8 reaches beyond that range. Bytes are 8-bit words.
\<close>

type_synonym byte = "8 word"
type_synonym ustr = "nat list"

text \<open>
  What a child process is started from: a list of arguments, or one line given to the shell.
\<close>

datatype cmdline = Argv "string list" | Line string

text \<open>
  The exceptions that can leave the functions of the module. \<open>FileNotFoundError\<close> and
  \<open>PermissionError\<close> are subclasses of \<open>OSError\<close>; \<open>CalledProcessError\<close> carries the exit
  code and the command it was built with; \<open>Raised\<close> stands for whatever else a callback or
  the operating system may raise. Messages are kept where the source writes them.
\<close>

datatype exn =
    ValueError string
  | TypeError string
  | IndexError
  | KeyError string
  | EOFError
  | UnicodeDecodeError
  | FileNotFoundError
  | PermissionError
  | OSError
  | CalledProcessError int cmdline
  | Raised string

fun is_OSError :: "exn \<Rightarrow> bool" where
  "is_OSError FileNotFoundError = True"
| "is_OSError PermissionError = True"
| "is_OSError OSError = True"
| "is_OSError _ = False"

subsection \<open>\<open>str\<close> methods\<close>

text \<open>\<open>str.isspace\<close> of one code point: the white space that \<open>str.strip()\<close> removes.\<close>

definition py_isspace :: "nat \<Rightarrow> bool" where
  "py_isspace c =
     ((9 \<le> c \<and> c \<le> 13) \<or> (28 \<le> c \<and> c \<le> 31) \<or> c = 32 \<or> c = 133 \<or> c = 160
      \<or> c = 5760 \<or> (8192 \<le> c \<and> c \<le> 8202) \<or> c = 8232 \<or> c = 8233 \<or> c = 8239
      \<or> c = 8287 \<or> c = 12288)"

text \<open>\<open>s.strip()\<close> on decoded text: white space is dropped at both ends.\<close>

definition py_strip :: "ustr \<Rightarrow> ustr" where
  "py_strip s = rev (dropWhile py_isspace (rev (dropWhile py_isspace s)))"

text \<open>\<open>ustr_of\<close> reads a \<^typ>\<open>string\<close> as code points.\<close>

definition ustr_of :: "string \<Rightarrow> ustr" where
  "ustr_of s = map of_char s"

text \<open>\<open>s.split(sep)\<close> for a separator of one character: always at least one part.\<close>

fun py_split :: "char \<Rightarrow> string \<Rightarrow> string list" where
  "py_split sep [] = [[]]"
| "py_split sep (c # cs) =
     (if c = sep then [] # py_split sep cs
      else (case py_split sep cs of
              [] \<Rightarrow> [[c]]
            | p # ps \<Rightarrow> (c # p) # ps))"

text \<open>\<open>xs[i]\<close> for an index that is not negative: out of range raises \<open>IndexError\<close>.\<close>

definition py_index :: "'a list \<Rightarrow> nat \<Rightarrow> exn + 'a" where
  "py_index xs i = (if i < length xs then Inr (xs ! i) else Inl IndexError)"

text \<open>\<open>s.lower()\<close>: the upper-case letters below code point 256 and their lower-case forms.\<close>

definition lower_char :: "char \<Rightarrow> char" where
  "lower_char c =
     (let n = (of_char c :: nat) in
      if (65 \<le> n \<and> n \<le> 90) \<or> (192 \<le> n \<and> n \<le> 222 \<and> n \<noteq> 215)
      then char_of (n + 32) else c)"

definition py_lower :: "string \<Rightarrow> string" where
  "py_lower s = map lower_char s"

text \<open>\<open>s.replace(old, new)\<close> for \<open>old\<close> of one character.\<close>

definition py_replace :: "char \<Rightarrow> string \<Rightarrow> string \<Rightarrow> string" where
  "py_replace old new s = concat (map (\<lambda>c. if c = old then new else [c]) s)"

subsection \<open>\<open>int(s)\<close>\<close>

text \<open>
  \<open>int\<close> of a \<open>str\<close> in base 10: white space around the literal is skipped (the ASCII white
  space of C, and the two further spaces below 256, which are first turned into blanks), then
  an optional sign, then decimal digits, where one underscore may stand between two digits.
  A literal of more than 4300 digits is refused (the default limit of the interpreter).
  Anything else is a \<open>ValueError\<close>.
\<close>

definition int_space :: "char \<Rightarrow> bool" where
  "int_space c =
     (let n = (of_char c :: nat) in (9 \<le> n \<and> n \<le> 13) \<or> n = 32 \<or> n = 133 \<or> n = 160)"

definition is_digit :: "char \<Rightarrow> bool" where
  "is_digit c = (48 \<le> (of_char c :: nat) \<and> (of_char c :: nat) \<le> 57)"

definition digit_val :: "char \<Rightarrow> nat" where
  "digit_val c = of_char c - 48"

fun digits_value :: "nat \<Rightarrow> string \<Rightarrow> nat option" where
  "digits_value acc [] = Some acc"
| "digits_value acc [c] =
     (if is_digit c then Some (10 * acc + digit_val c) else None)"
| "digits_value acc (c # d # ds) =
     (if is_digit c then digits_value (10 * acc + digit_val c) (d # ds)
      else if c = CHR ''_'' \<and> is_digit d then digits_value (10 * acc + digit_val d) ds
      else None)"

definition invalid_literal :: exn where
  "invalid_literal = ValueError ''invalid literal for int() with base 10''"

definition digit_limit :: exn where
  "digit_limit = ValueError ''Exceeds the limit (4300 digits) for integer string conversion''"

definition signed_digits :: "string \<Rightarrow> int \<times> string" where
  "signed_digits s =
     (case s of
        [] \<Rightarrow> (1, [])
      | c # r \<Rightarrow> if c = CHR ''+'' then (1, r) else if c = CHR ''-'' then (- 1, r) else (1, s))"

definition py_int :: "string \<Rightarrow> exn + int" where
  "py_int s =
     (let body = rev (dropWhile int_space (rev (dropWhile int_space s)));
          (sign, ds) = signed_digits body
      in case ds of
           [] \<Rightarrow> Inl invalid_literal
         | c # cs \<Rightarrow>
             if \<not> is_digit c then Inl invalid_literal
             else (case digits_value (digit_val c) cs of
                     None \<Rightarrow> Inl invalid_literal
                   | Some n \<Rightarrow>
                       if 4300 < length (filter is_digit ds) then Inl digit_limit
                       else Inr (sign * int n)))"

section \<open>The toolchain version classifier\<close>

text \<open>
  \<^verbatim>\<open>
  def check_vitis(version: str) -> int:
      ver_parts = version.split(".")
      if int(ver_parts[0]) <= 2019 and int(ver_parts[1]) <= 1:
          return 0
      else:
          return 1
  \<close>
  \<open>and\<close> evaluates its right operand only when the left one is true.
\<close>

definition check_vitis :: "string \<Rightarrow> exn + int" where
  "check_vitis version =
     (let ver_parts = py_split CHR ''.'' version in
      case py_index ver_parts 0 of
        Inl e \<Rightarrow> Inl e
      | Inr p0 \<Rightarrow>
          (case py_int p0 of
             Inl e \<Rightarrow> Inl e
           | Inr year \<Rightarrow>
               if year \<le> 2019 then
                 (case py_index ver_parts 1 of
                    Inl e \<Rightarrow> Inl e
                  | Inr p1 \<Rightarrow>
                      (case py_int p1 of
                         Inl e \<Rightarrow> Inl e
                       | Inr minor \<Rightarrow> if minor \<le> 1 then Inr 0 else Inr 1))
               else Inr 1))"

section \<open>Bytes and text of a child process\<close>

text \<open>
  \<open>bytes.decode("utf-8")\<close> with strict error handling: well-formed UTF-8 gives its code
  points; an overlong form, a surrogate, a code point above 0x10FFFF, a stray continuation
  byte or a truncated sequence raises \<open>UnicodeDecodeError\<close>.
\<close>

definition is_cont :: "nat \<Rightarrow> bool" where
  "is_cont b = (128 \<le> b \<and> b \<le> 191)"

fun utf8_points :: "nat list \<Rightarrow> ustr option" where
  "utf8_points [] = Some []"
| "utf8_points (b0 # bs) =
     (if b0 < 128 then map_option ((#) b0) (utf8_points bs)
      else if 194 \<le> b0 \<and> b0 \<le> 223 then
        (case bs of
           b1 # r \<Rightarrow>
             if is_cont b1
             then map_option ((#) ((b0 - 192) * 64 + (b1 - 128))) (utf8_points r)
             else None
         | _ \<Rightarrow> None)
      else if 224 \<le> b0 \<and> b0 \<le> 239 then
        (case bs of
           b1 # b2 # r \<Rightarrow>
             if is_cont b1 \<and> is_cont b2
                \<and> (if b0 = 224 then 160 \<le> b1 else True)
                \<and> (if b0 = 237 then b1 \<le> 159 else True)
             then map_option
                    ((#) ((b0 - 224) * 4096 + (b1 - 128) * 64 + (b2 - 128))) (utf8_points r)
             else None
         | _ \<Rightarrow> None)
      else if 240 \<le> b0 \<and> b0 \<le> 244 then
        (case bs of
           b1 # b2 # b3 # r \<Rightarrow>
             if is_cont b1 \<and> is_cont b2 \<and> is_cont b3
                \<and> (if b0 = 240 then 144 \<le> b1 else True)
                \<and> (if b0 = 244 then b1 \<le> 143 else True)
             then map_option
                    ((#) ((b0 - 240) * 262144 + (b1 - 128) * 4096 + (b2 - 128) * 64
                          + (b3 - 128)))
                    (utf8_points r)
             else None
         | _ \<Rightarrow> None)
      else None)"

definition decode_utf8 :: "byte list \<Rightarrow> exn + ustr" where
  "decode_utf8 bs =
     (case utf8_points (map unat bs) of
        None \<Rightarrow> Inl UnicodeDecodeError
      | Some s \<Rightarrow> Inr s)"

text \<open>
  \<open>readline()\<close> on the binary pipe: the bytes up to and including the next line feed, or
  all that is left; nothing at the end of the stream. The second component is what stays
  in the pipe.
\<close>

fun readline :: "byte list \<Rightarrow> byte list \<times> byte list" where
  "readline [] = ([], [])"
| "readline (b # bs) =
     (if b = 10 then ([b], bs)
      else (case readline bs of (l, r) \<Rightarrow> (b # l, r)))"

section \<open>\<open>shlex.split\<close>\<close>

text \<open>
  \<open>shlex.split(s)\<close> runs the POSIX-mode lexer with \<open>whitespace_split\<close> set and no comment
  characters, and collects its tokens. The lexer is a state machine over the characters:
  \<open>state\<close> is a blank (between tokens), \<open>a\<close> (inside a word), one of the two quote
  characters, or the escape character; \<open>escapedstate\<close> is the state to come back to after
  an escape; \<open>quoted\<close> says that the token met a quote, so that an empty token is still a
  token. In the blank state a character that is neither white space, escape nor quote
  opens a word (the source has two branches for this, with the same body). When a token is
  complete the lexer starts the next one in the blank state, with \<open>quoted\<close> reset.
\<close>

definition whitespace :: string where
  "whitespace = [CHR 0x20, CHR 0x09, CHR 0x0D, CHR 0x0A]"

definition quotes :: string where
  "quotes = [CHR 0x27, CHR 0x22]"

definition escape :: string where
  "escape = [CHR 0x5C]"

definition escapedquotes :: string where
  "escapedquotes = [CHR 0x22]"

definition emit :: "string \<Rightarrow> exn + string list \<Rightarrow> exn + string list" where
  "emit token more = (case more of Inl e \<Rightarrow> Inl e | Inr ts \<Rightarrow> Inr (token # ts))"

fun read_tokens :: "char \<Rightarrow> char \<Rightarrow> bool \<Rightarrow> string \<Rightarrow> string \<Rightarrow> exn + string list" where
  "read_tokens state escapedstate quoted token [] =
     (if state = CHR 0x20 then (if token \<noteq> [] \<or> quoted then Inr [token] else Inr [])
      else if state \<in> set quotes then Inl (ValueError ''No closing quotation'')
      else if state \<in> set escape then Inl (ValueError ''No escaped character'')
      else (if token \<noteq> [] \<or> quoted then Inr [token] else Inr []))"
| "read_tokens state escapedstate quoted token (nextchar # instream) =
     (if state = CHR 0x20 then
        (if nextchar \<in> set whitespace then
           (if token \<noteq> [] \<or> quoted
            then emit token (read_tokens (CHR 0x20) (CHR 0x20) False [] instream)
            else read_tokens state escapedstate quoted token instream)
         else if nextchar \<in> set escape then
           read_tokens nextchar (CHR ''a'') quoted token instream
         else if nextchar \<in> set quotes then
           read_tokens nextchar escapedstate quoted token instream
         else read_tokens (CHR ''a'') escapedstate quoted [nextchar] instream)
      else if state \<in> set quotes then
        (if nextchar = state then
           read_tokens (CHR ''a'') escapedstate True token instream
         else if nextchar \<in> set escape \<and> state \<in> set escapedquotes then
           read_tokens nextchar state True token instream
         else read_tokens state escapedstate True (token @ [nextchar]) instream)
      else if state \<in> set escape then
        (if escapedstate \<in> set quotes \<and> nextchar \<noteq> state \<and> nextchar \<noteq> escapedstate
         then read_tokens escapedstate escapedstate quoted (token @ [state] @ [nextchar]) instream
         else read_tokens escapedstate escapedstate quoted (token @ [nextchar]) instream)
      else
        (if nextchar \<in> set whitespace then
           (if token \<noteq> [] \<or> quoted
            then emit token (read_tokens (CHR 0x20) (CHR 0x20) False [] instream)
            else read_tokens (CHR 0x20) escapedstate quoted token instream)
         else if nextchar \<in> set quotes then
           read_tokens nextchar escapedstate quoted token instream
         else if nextchar \<in> set escape then
           read_tokens nextchar (CHR ''a'') quoted token instream
         else read_tokens state escapedstate quoted (token @ [nextchar]) instream))"

definition shlex_split :: "string \<Rightarrow> exn + string list" where
  "shlex_split s = read_tokens (CHR 0x20) (CHR 0x20) False [] s"

section \<open>Child processes and the trace of a call\<close>

text \<open>
  The arguments of \<open>subprocess.Popen\<close> that the module sets: the command, the working
  directory, where the child's standard output and standard error go (\<open>None\<close>: the
  parent's own stream; \<open>PIPE\<close>; \<open>STDOUT\<close>: into the child's standard output), and
  whether the command is given to the shell.
\<close>

datatype redirect = Inherit | Pipe | Stdout

record popen_call =
  p_args :: cmdline
  p_cwd :: "string option"
  p_stdout :: redirect
  p_stderr :: redirect
  p_shell :: bool

text \<open>
  A started child, as far as the parent can see it: the bytes it writes into the pipe on
  its standard output (with its standard error, when that is merged in), how many times
  \<open>poll()\<close> still answers \<open>None\<close> after the pipe has reached its end, and its exit code.
  A child that never exits is not described by this record.
\<close>

record proc =
  piped :: "byte list"
  linger :: nat
  returncode :: int

text \<open>
  The operating system: \<open>spawn\<close> answers each \<open>Popen\<close> call with the started child or with
  the exception that \<open>Popen\<close> raises (an executable that is not found, a refusal of the
  system, an empty argument list); \<open>getcwd\<close> is \<open>Path.cwd()\<close>.
\<close>

record world =
  spawn :: "popen_call \<Rightarrow> exn + proc"
  getcwd :: string

text \<open>
  What a call does besides returning: the lines it prints (\<open>Print\<close>; \<open>Err\<close> through
  \<open>err\<close>, where \<open>ErrSplit\<close> is the message that shows the token list), the processes it
  starts, and the calls of the line callback, in order.
\<close>

datatype event =
    Print string
  | Err string
  | ErrSplit "string list"
  | Popen popen_call
  | Callback ustr

text \<open>The arguments of the callback calls in a trace, in order.\<close>

fun callbacks :: "event list \<Rightarrow> ustr list" where
  "callbacks [] = []"
| "callbacks (Callback l # es) = l # callbacks es"
| "callbacks (e # es) = callbacks es"

text \<open>The token lists handed to \<open>Popen\<close> in a trace, in order.\<close>

fun executed :: "event list \<Rightarrow> cmdline list" where
  "executed [] = []"
| "executed (Popen c # es) = p_args c # executed es"
| "executed (e # es) = executed es"

section \<open>The command runner\<close>

definition print_cmd_header :: "string \<Rightarrow> string \<Rightarrow> bool \<Rightarrow> bool \<Rightarrow> event list" where
  "print_cmd_header cmd cwd silent blocking =
     (if \<not> silent then
        [Print [],
         Print ''============================================================='',
         Print (''Running command'' @ (if \<not> blocking then '' (non-blocking)'' else []) @ '':''),
         Print cmd,
         Print (''From directory '' @ cwd)]
      else [])"

definition print_cmd_footer :: "bool \<Rightarrow> event list" where
  "print_cmd_footer silent =
     (if \<not> silent
      then [Print ''============================================================='']
      else [])"

text \<open>
  A line callback is a function of its own state: given a line it returns the new state,
  or raises.

  The loop of \<open>_run_blocking\<close>:
  \<^verbatim>\<open>
        while True:
            output = process.stdout.readline()
            if output == b'' and process.poll() is not None:
                break
            if output:
                line = output.decode("utf-8").strip()
                line_handler(line)
  \<close>
  It returns the trace, the state of the callback, and the exception that ended it, if any.
\<close>

function read_loop ::
  "('h \<Rightarrow> ustr \<Rightarrow> exn + 'h) \<Rightarrow> byte list \<Rightarrow> nat \<Rightarrow> 'h \<Rightarrow> event list \<times> 'h \<times> exn option"
where
  "read_loop line_handler buf polls h =
     (if fst (readline buf) = [] \<and> polls = 0 then ([], h, None)
      else if fst (readline buf) \<noteq> [] then
        (case decode_utf8 (fst (readline buf)) of
           Inl e \<Rightarrow> ([], h, Some e)
         | Inr text \<Rightarrow>
             (case line_handler h (py_strip text) of
                Inl e \<Rightarrow> ([Callback (py_strip text)], h, Some e)
              | Inr h' \<Rightarrow>
                  (case read_loop line_handler (snd (readline buf)) polls h' of
                     (ev, h'', r) \<Rightarrow> (Callback (py_strip text) # ev, h'', r))))
      else read_loop line_handler (snd (readline buf)) (polls - 1) h)"
  by pat_completeness auto
termination
proof -
  have rest_le: "length (snd (readline b)) \<le> length b" for b
    by (induction b) (auto split: prod.splits)
  have shorter: "length (snd (readline b)) < length b" if "fst (readline b) \<noteq> []" for b
  proof (cases b)
    case Nil
    with that show ?thesis by simp
  next
    case (Cons x xs)
    with rest_le [of xs] show ?thesis
      by (auto split: prod.splits)
  qed
  have empty: "snd (readline b) = b" if "fst (readline b) = []" for b
    using that by (cases b) (auto split: prod.splits if_splits)
  show ?thesis
    by (relation "measure (\<lambda>(line_handler, buf, polls, h). length buf + polls)")
       (auto simp: empty dest: shorter)
qed

declare read_loop.simps [simp del]

text \<open>
  \<open>subprocess.run(split_cmd, cwd=cwd, check=True, text=True)\<close>: start the child, wait for
  it, and raise \<open>CalledProcessError(retcode, process.args)\<close> when the exit code is not 0.
\<close>

definition subprocess_run_check :: "world \<Rightarrow> popen_call \<Rightarrow> exn + int" where
  "subprocess_run_check w call =
     (case spawn w call of
        Inl e \<Rightarrow> Inl e
      | Inr process \<Rightarrow>
          if returncode process \<noteq> 0
          then Inl (CalledProcessError (returncode process) (p_args call))
          else Inr (returncode process))"

definition run_blocking ::
  "world \<Rightarrow> string list \<Rightarrow> string \<Rightarrow> ('h \<Rightarrow> ustr \<Rightarrow> exn + 'h) option \<Rightarrow> string \<Rightarrow> 'h
     \<Rightarrow> event list \<times> 'h \<times> (exn + int)" where
  "run_blocking w split_cmd cwd line_handler original_cmd h =
     (case line_handler of
        Some handler \<Rightarrow>
          (let call = \<lparr>p_args = Argv split_cmd, p_cwd = Some cwd, p_stdout = Pipe,
                       p_stderr = Stdout, p_shell = False\<rparr>
           in case spawn w call of
                Inl e \<Rightarrow> ([Popen call], h, Inl e)
              | Inr process \<Rightarrow>
                  (case read_loop handler (piped process) (linger process) h of
                     (ev, h', Some e) \<Rightarrow> (Popen call # ev, h', Inl e)
                   | (ev, h', None) \<Rightarrow>
                       if returncode process \<noteq> 0
                       then (Popen call # ev, h',
                             Inl (CalledProcessError (returncode process) (Line original_cmd)))
                       else (Popen call # ev, h', Inr (returncode process))))
      | None \<Rightarrow>
          (let call = \<lparr>p_args = Argv split_cmd, p_cwd = Some cwd, p_stdout = Inherit,
                       p_stderr = Inherit, p_shell = False\<rparr>
           in case subprocess_run_check w call of
                Inl e \<Rightarrow> ([Popen call], h, Inl e)
              | Inr rc \<Rightarrow> ([Popen call], h, Inr rc)))"

text \<open>
  \<^verbatim>\<open>
  def _run_nonblocking(split_cmd: List[str], cwd: Path) -> int:
      subprocess.Popen(split_cmd, stdout=None, stderr=None, cwd=cwd,
                       close_fds=True, shell=True)
      return 0
  \<close>
\<close>

definition run_nonblocking :: "world \<Rightarrow> string list \<Rightarrow> string \<Rightarrow> event list \<times> (exn + int)" where
  "run_nonblocking w split_cmd cwd =
     (let call = \<lparr>p_args = Argv split_cmd, p_cwd = Some cwd, p_stdout = Inherit,
                  p_stderr = Inherit, p_shell = True\<rparr>
      in case spawn w call of
           Inl e \<Rightarrow> ([Popen call], Inl e)
         | Inr process \<Rightarrow> ([Popen call], Inr 0))"

text \<open>
  A call of \<open>_run_nonblocking\<close> with positional arguments: Python binds them to the two
  parameters of the function, and raises \<open>TypeError\<close> before the body runs when their
  number is not two. The only call in the module passes a token list, a directory and the
  command string.
\<close>

datatype pyval = PList "string list" | PStr string

definition arity_error :: exn where
  "arity_error = TypeError ''_run_nonblocking() takes 2 positional arguments''"

fun call_run_nonblocking :: "world \<Rightarrow> pyval list \<Rightarrow> event list \<times> (exn + int)" where
  "call_run_nonblocking w [PList split_cmd, PStr cwd] = run_nonblocking w split_cmd cwd"
| "call_run_nonblocking w actuals = ([], Inl arity_error)"

text \<open>
  \<^verbatim>\<open>
    if not cwd:
        cwd = Path.cwd()
    cmd_escaped = cmd.replace("\\", "\\\\")
    split_cmd = shlex.split(cmd_escaped)
    _print_cmd_header(cmd, cwd, silent, blocking)
    try:
        if blocking:
            rc = _run_blocking(split_cmd, cwd, line_handler, cmd)
        else:
            rc = _run_nonblocking(split_cmd, cwd, cmd)
    except (FileNotFoundError, OSError) as e:
        err(f"Command was {cmd}")
        err(f"Split command was {split_cmd}")
        raise
    _print_cmd_footer(silent)
    return rc
  \<close>
  The parameter \<open>cwd\<close> is \<open>None\<close> or a path; \<open>not cwd\<close> holds for \<open>None\<close> and for the empty
  string, and \<open>effective_cwd\<close> is the directory after the first two lines. The trace of
  the \<open>try\<close> block comes after the header; an \<open>OSError\<close> from anywhere inside it adds the
  two \<open>err\<close> lines, and every exception passes on to the caller.
\<close>

definition effective_cwd :: "world \<Rightarrow> string option \<Rightarrow> string" where
  "effective_cwd w cwd =
     (case cwd of None \<Rightarrow> getcwd w | Some d \<Rightarrow> if d = [] then getcwd w else d)"

definition run_cmd ::
  "world \<Rightarrow> string \<Rightarrow> string option \<Rightarrow> bool \<Rightarrow> ('h \<Rightarrow> ustr \<Rightarrow> exn + 'h) option \<Rightarrow> bool \<Rightarrow> 'h
     \<Rightarrow> event list \<times> 'h \<times> (exn + int)" where
  "run_cmd w cmd cwd silent line_handler blocking h =
     (let dir = effective_cwd w cwd;
          cmd_escaped = py_replace (CHR 0x5C) [CHR 0x5C, CHR 0x5C] cmd
      in case shlex_split cmd_escaped of
           Inl e \<Rightarrow> ([], h, Inl e)
         | Inr split_cmd \<Rightarrow>
             (case (if blocking then run_blocking w split_cmd dir line_handler cmd h
                    else (case call_run_nonblocking w [PList split_cmd, PStr dir, PStr cmd] of
                            (ev, r) \<Rightarrow> (ev, h, r))) of
                (ev, h', Inl e) \<Rightarrow>
                  (print_cmd_header cmd dir silent blocking @ ev
                     @ (if is_OSError e then [Err (''Command was '' @ cmd), ErrSplit split_cmd]
                        else []),
                   h', Inl e)
              | (ev, h', Inr rc) \<Rightarrow>
                  (print_cmd_header cmd dir silent blocking @ ev @ print_cmd_footer silent,
                   h', Inr rc)))"

section \<open>The repository cleanliness check\<close>

text \<open>
  \<^verbatim>\<open>
    cmd = "git status --porcelain"
    output = subprocess.run(cmd, capture_output=True, shell=True).stdout
    if output:
        output = cmd + "\n" + output.decode("utf-8")
        if "DEBUG_ALLOW_GIT_DIRTY" in globals():
            print("********************************************")
            print("**** WARNING: Bypassing git clean check ****")
            print("********************************************")
            return globals()["DEBUG_ALLOW_GIT_DIRTY"], output
        else:
            return False, output
    return True, ""
  \<close>
  The module global \<open>DEBUG_ALLOW_GIT_DIRTY\<close> is a parameter: \<open>None\<close> when the name is not
  defined, its value otherwise. \<open>status_call\<close> is the \<open>Popen\<close> call that \<open>subprocess.run\<close>
  makes for \<open>capture_output=True, shell=True\<close>. The exit code of the query is not looked at.
\<close>

definition status_cmd :: string where
  "status_cmd = ''git status --porcelain''"

definition status_call :: popen_call where
  "status_call = \<lparr>p_args = Line status_cmd, p_cwd = None, p_stdout = Pipe, p_stderr = Pipe,
                   p_shell = True\<rparr>"

definition repo_clean :: "world \<Rightarrow> bool option \<Rightarrow> event list \<times> (exn + bool \<times> ustr)" where
  "repo_clean w debug_allow_git_dirty =
     (let cmd = status_cmd;
          call = status_call
      in case spawn w call of
           Inl e \<Rightarrow> ([Popen call], Inl e)
         | Inr process \<Rightarrow>
             if piped process \<noteq> [] then
               (case decode_utf8 (piped process) of
                  Inl e \<Rightarrow> ([Popen call], Inl e)
                | Inr text \<Rightarrow>
                    (case debug_allow_git_dirty of
                       Some flag \<Rightarrow>
                         ([Popen call,
                           Print ''********************************************'',
                           Print ''**** WARNING: Bypassing git clean check ****'',
                           Print ''********************************************''],
                          Inr (flag, ustr_of cmd @ [10] @ text))
                     | None \<Rightarrow> ([Popen call], Inr (False, ustr_of cmd @ [10] @ text))))
             else ([Popen call], Inr (True, [])))"

section \<open>The yes/no prompt\<close>

text \<open>
  \<^verbatim>\<open>
    valid = {"yes": True, "y": True, "ye": True, "no": False, "n": False}
    if default is None:
        prompt = " [y/n] "
    elif default == "yes":
        prompt = " [Y/n] "
    elif default == "no":
        prompt = " [y/N] "
    else:
        raise ValueError("invalid default answer: '%s'" % default)
    while True:
        print_func(f"{question} {prompt}", end="")
        choice = input().lower()
        if default is not None and choice == "":
            return valid[default]
        elif choice in valid:
            return valid[choice]
        else:
            print_func("Please respond with 'yes' or 'no' " "(or 'y' or 'n').", end="")
  \<close>
  The terminal is the list of the lines still to be typed; \<open>input()\<close> takes the first one
  and raises \<open>EOFError\<close> when there is none. The result holds what was printed, the lines
  left, and the answer. The parameter \<open>default\<close> is written \<open>dflt\<close>.
\<close>

definition valid :: "(string \<times> bool) list" where
  "valid = [(''yes'', True), (''y'', True), (''ye'', True), (''no'', False), (''n'', False)]"

definition py_getitem :: "(string \<times> bool) list \<Rightarrow> string \<Rightarrow> exn + bool" where
  "py_getitem d k = (case map_of d k of None \<Rightarrow> Inl (KeyError k) | Some v \<Rightarrow> Inr v)"

definition prompt_of :: "string option \<Rightarrow> exn + string" where
  "prompt_of dflt =
     (case dflt of
        None \<Rightarrow> Inr '' [y/n] ''
      | Some d \<Rightarrow>
          if d = ''yes'' then Inr '' [Y/n] ''
          else if d = ''no'' then Inr '' [y/N] ''
          else Inl (ValueError (''invalid default answer: '' @ [CHR 0x27] @ d @ [CHR 0x27])))"

definition please :: string where
  "please = ''Please respond with '' @ [CHR 0x27] @ ''yes'' @ [CHR 0x27] @ '' or ''
            @ [CHR 0x27] @ ''no'' @ [CHR 0x27] @ '' (or '' @ [CHR 0x27] @ ''y'' @ [CHR 0x27]
            @ '' or '' @ [CHR 0x27] @ ''n'' @ [CHR 0x27] @ '').''"

fun ask ::
  "string \<Rightarrow> string \<Rightarrow> string option \<Rightarrow> string list
     \<Rightarrow> event list \<times> string list \<times> (exn + bool)" where
  "ask question prompt dflt [] = ([Print (question @ '' '' @ prompt)], [], Inl EOFError)"
| "ask question prompt dflt (typed # stdin) =
     (case (if py_lower typed = [] then dflt else None) of
        Some d \<Rightarrow> ([Print (question @ '' '' @ prompt)], stdin, py_getitem valid d)
      | None \<Rightarrow>
          (case map_of valid (py_lower typed) of
             Some answer \<Rightarrow> ([Print (question @ '' '' @ prompt)], stdin, Inr answer)
           | None \<Rightarrow>
               (case ask question prompt dflt stdin of
                  (ev, rest, r) \<Rightarrow>
                    (Print (question @ '' '' @ prompt) # Print please # ev, rest, r))))"

definition query_yes_no ::
  "string \<Rightarrow> string option \<Rightarrow> string list \<Rightarrow> event list \<times> string list \<times> (exn + bool)" where
  "query_yes_no question dflt stdin =
     (case prompt_of dflt of
        Inl e \<Rightarrow> ([], stdin, Inl e)
      | Inr prompt \<Rightarrow> ask question prompt dflt stdin)"

section \<open>Notions of the specification\<close>

text \<open>
  The lines of a stream of bytes, as the specification counts them: each line ends with its
  line feed, except a last line that the stream leaves unfinished. Defined on the bytes
  alone, to be compared with what the loop of the runner reads.
\<close>

fun lines_of :: "byte list \<Rightarrow> byte list list" where
  "lines_of [] = []"
| "lines_of (b # bs) =
     (if b = 10 then [b] # lines_of bs
      else (case lines_of bs of
              [] \<Rightarrow> [[b]]
            | l # ls \<Rightarrow> (b # l) # ls))"

text \<open>
  Right-trimming as the specification words it: trailing white space removed, leading
  white space preserved (Python's \<open>rstrip\<close>).
\<close>

definition py_rstrip :: "ustr \<Rightarrow> ustr" where
  "py_rstrip s = rev (dropWhile py_isspace (rev s))"

section \<open>Example worlds\<close>

text \<open>A callback that keeps the lines it is given, and never raises.\<close>

definition keep_line :: "ustr list \<Rightarrow> ustr \<Rightarrow> exn + ustr list" where
  "keep_line kept l = Inr (kept @ [l])"

text \<open>
  A world in which every command starts a child that writes the given bytes, is still
  running at the first two \<open>poll()\<close> calls after the end of its output, and exits with the
  given code.
\<close>

definition world_of :: "byte list \<Rightarrow> int \<Rightarrow> world" where
  "world_of out rc =
     \<lparr>spawn = (\<lambda>call. Inr \<lparr>piped = out, linger = 2, returncode = rc\<rparr>), getcwd = ''/work''\<rparr>"

text \<open>The bytes of \<open>"  a\\nb \\n"\<close>: a line with leading blanks, a line with a trailing one.\<close>

definition indented :: "byte list" where
  "indented = [32, 32, 97, 10, 98, 32, 10]"

text \<open>A byte that is not UTF-8, as a file name in another encoding would bring.\<close>

definition not_utf8 :: "byte list" where
  "not_utf8 = [255, 10]"

section \<open>Properties of the version classifier\<close>

lemmas int_eval = py_int_def signed_digits_def int_space_def is_digit_def digit_val_def
  invalid_literal_def digit_limit_def

lemma py_split_no_sep: "sep \<notin> set s \<Longrightarrow> py_split sep s = [s]"
  by (induction s) auto

text \<open>
  Claim C1. The test vectors of the classifier: \<open>2019.1\<close> gives 0, \<open>2019.2\<close> gives 1 and
  \<open>2020.1\<close> gives 1, as the claim says. On \<open>2018.9\<close> the code gives 1, where the claim
  says 0: the year passes the test \<open>\<le> 2019\<close>, the minor number 9 fails the test \<open>\<le> 1\<close>,
  and the conjunction of the two sends a version that is older than 2019.2 to the
  \<open>else\<close> branch.
\<close>

theorem check_vitis_vectors:
  "check_vitis ''2019.1'' = Inr 0 \<and> check_vitis ''2019.2'' = Inr 1
   \<and> check_vitis ''2020.1'' = Inr 1 \<and> check_vitis ''2018.9'' = Inr 1"
  by (simp add: check_vitis_def py_index_def int_eval)

text \<open>
  Claim C7, as amended. Let \<open>p0\<close> be the first dot-separated component of the version and
  \<open>rest\<close> the components after it.
  \<^item> When the first two components parse as integers \<open>a\<close> and \<open>b\<close>, the result is 0 if
    \<open>a \<le> 2019\<close> and \<open>b \<le> 1\<close>, and 1 otherwise.
  \<^item> When the first component does not parse, the call raises the error of \<open>int\<close>.
  \<^item> When the first component is an integer that is at most 2019, and the second one does
    not parse, the call raises the error of \<open>int\<close>; when there is no second component, it
    raises \<open>IndexError\<close>.
  \<^item> When the first component is an integer above 2019, the result is 1 whatever follows:
    the second component is not looked at.
\<close>

theorem check_vitis_threshold:
  assumes "py_split CHR ''.'' version = p0 # rest"
  shows "(rest = p1 # ps \<and> py_int p0 = Inr a \<and> py_int p1 = Inr b
            \<longrightarrow> check_vitis version = Inr (if a \<le> 2019 \<and> b \<le> 1 then 0 else 1))
       \<and> (py_int p0 = Inl e \<longrightarrow> check_vitis version = Inl e)
       \<and> (py_int p0 = Inr a \<and> a \<le> 2019 \<and> rest = p1 # ps \<and> py_int p1 = Inl e
            \<longrightarrow> check_vitis version = Inl e)
       \<and> (py_int p0 = Inr a \<and> a \<le> 2019 \<and> rest = [] \<longrightarrow> check_vitis version = Inl IndexError)
       \<and> (py_int p0 = Inr a \<and> 2019 < a \<longrightarrow> check_vitis version = Inr 1)"
  using assms by (auto simp: check_vitis_def py_index_def)

text \<open>
  The theorem at six versions, one or more for each of its cases: \<open>2019.1\<close> and \<open>2018.3\<close>
  (both components parse), \<open>v.1\<close> (the first does not), \<open>2019.x\<close> (the second does not),
  \<open>2019\<close> (no second component) and \<open>2020.x\<close> (a year above 2019).
\<close>

theorem check_vitis_threshold_witness:
  "check_vitis ''2019.1'' = Inr 0 \<and> check_vitis ''2018.3'' = Inr 1
   \<and> check_vitis ''v.1'' = Inl invalid_literal
   \<and> check_vitis ''2019.x'' = Inl invalid_literal
   \<and> check_vitis ''2019'' = Inl IndexError
   \<and> check_vitis ''2020.x'' = Inr 1"
proof -
  have s1: "py_split CHR ''.'' ''2019.1'' = ''2019'' # [''1'']" by simp
  have s2: "py_split CHR ''.'' ''2018.3'' = ''2018'' # [''3'']" by simp
  have s3: "py_split CHR ''.'' ''v.1'' = ''v'' # [''1'']" by simp
  have s4: "py_split CHR ''.'' ''2019.x'' = ''2019'' # [''x'']" by simp
  have s5: "py_split CHR ''.'' ''2019'' = ''2019'' # []" by simp
  have s6: "py_split CHR ''.'' ''2020.x'' = ''2020'' # [''x'']" by simp
  have i1: "py_int ''2019'' = Inr 2019" "py_int ''2018'' = Inr 2018"
    "py_int ''2020'' = Inr 2020" "py_int ''1'' = Inr 1" "py_int ''3'' = Inr 3"
    "py_int ''v'' = Inl invalid_literal" "py_int ''x'' = Inl invalid_literal"
    by (simp_all add: int_eval)
  show ?thesis
    using check_vitis_threshold [OF s1, of "''1''" "[]" 2019 1]
      check_vitis_threshold [OF s2, of "''3''" "[]" 2018 3]
      check_vitis_threshold [OF s3, of _ _ _ _ invalid_literal]
      check_vitis_threshold [OF s4, of "''x''" "[]" 2019 _ invalid_literal]
      check_vitis_threshold [OF s5, of _ _ 2019]
      check_vitis_threshold [OF s6, of _ _ 2020]
    by (simp add: i1)
qed

text \<open>
  Claim C7 as it is written says that the call fails when the leading components are not
  integers. The version \<open>2020.x\<close> has the leading components \<open>2020\<close> and \<open>x\<close>, the second
  is not an integer, and the call returns 1.
\<close>

theorem check_vitis_second_component_unread:
  "py_split CHR ''.'' ''2020.x'' = [''2020'', ''x'']
   \<and> py_int ''x'' = Inl invalid_literal
   \<and> check_vitis ''2020.x'' = Inr 1"
  by (simp add: check_vitis_def py_index_def int_eval)

text \<open>
  Claim C10. A version without a dot is its own single component. When it parses as an
  integer above 2019 the call returns 1; when it parses as an integer that is at most 2019
  the call raises \<open>IndexError\<close>, from the read of the second component.
\<close>

theorem check_vitis_single_component:
  assumes "CHR ''.'' \<notin> set version" and "py_int version = Inr n"
  shows "check_vitis version = (if 2019 < n then Inr 1 else Inl IndexError)"
  using assms by (simp add: check_vitis_def py_index_def py_split_no_sep)

text \<open>The theorem at \<open>2020\<close> and at \<open>2019\<close>.\<close>

theorem check_vitis_single_component_witness:
  "check_vitis ''2020'' = Inr 1 \<and> check_vitis ''2019'' = Inl IndexError"
proof -
  have d1: "CHR ''.'' \<notin> set ''2020''" and d2: "CHR ''.'' \<notin> set ''2019''" by simp_all
  have i1: "py_int ''2020'' = Inr 2020" and i2: "py_int ''2019'' = Inr 2019"
    by (simp_all add: int_eval)
  show ?thesis
    using check_vitis_single_component [OF d1 i1] check_vitis_single_component [OF d2 i2]
    by simp
qed

section \<open>Properties of the command runner\<close>

subsection \<open>The reading loop and the lines of the output\<close>

lemma readline_fst_empty: "fst (readline buf) = [] \<longleftrightarrow> buf = []"
  by (cases buf) (auto split: prod.splits)

lemma lines_of_readline:
  "buf \<noteq> [] \<Longrightarrow> lines_of buf = fst (readline buf) # lines_of (snd (readline buf))"
proof (induction buf)
  case Nil
  then show ?case by simp
next
  case (Cons b bs)
  show ?case
  proof (cases "bs = []")
    case True
    then show ?thesis by simp
  next
    case False
    with Cons.IH show ?thesis by (simp split: prod.splits)
  qed
qed

lemma callbacks_append: "callbacks (xs @ ys) = callbacks xs @ callbacks ys"
  by (induction xs rule: callbacks.induct) simp_all

lemma callbacks_map_comp: "callbacks (map (Callback \<circ> f) ls) = map f ls"
  by (induction ls) simp_all

lemma callbacks_header: "callbacks (print_cmd_header cmd dir silent blocking) = []"
  by (simp add: print_cmd_header_def)

lemma callbacks_footer: "callbacks (print_cmd_footer silent) = []"
  by (simp add: print_cmd_footer_def)

text \<open>
  When every line decodes and the callback never raises, the loop calls the callback on
  each line of the buffer, in order, and ends without an exception, however long the child
  lingers after its last byte.
\<close>

lemma read_loop_all_lines:
  assumes handler_ok: "\<forall>s l. \<exists>s'. handler s l = Inr s'"
    and decoded: "map decode_utf8 (lines_of buf) = map Inr texts"
  shows "\<exists>h'. read_loop handler buf polls h = (map Callback (map py_strip texts), h', None)"
  using handler_ok decoded
proof (induction handler buf polls h arbitrary: texts rule: read_loop.induct)
  case (1 line_handler buf polls h)
  note ok = "1.prems"(1) and dec = "1.prems"(2)
  show ?case
  proof (cases "buf = []")
    case True
    with dec have texts: "texts = []" by simp
    show ?thesis
    proof (cases "polls = 0")
      case True
      with \<open>buf = []\<close> texts show ?thesis
        by (simp add: read_loop.simps)
    next
      case False
      with \<open>buf = []\<close> "1.IH"(2) [OF _ _ ok, of texts] dec
      obtain h' where "read_loop line_handler [] (polls - 1) h
                        = (map Callback (map py_strip texts), h', None)"
        by auto
      with False \<open>buf = []\<close> texts show ?thesis
        by (subst read_loop.simps) simp
    qed
  next
    case False
    then have ne: "fst (readline buf) \<noteq> []"
      by (simp add: readline_fst_empty)
    from False dec obtain t ts where texts: "texts = t # ts"
      and t: "decode_utf8 (fst (readline buf)) = Inr t"
      and ts: "map decode_utf8 (lines_of (snd (readline buf))) = map Inr ts"
      by (cases texts) (auto simp: lines_of_readline)
    from ok obtain h1 where h1: "line_handler h (py_strip t) = Inr h1"
      by blast
    from ne have guard: "\<not> (fst (readline buf) = [] \<and> polls = 0)"
      by simp
    from "1.IH"(1) [OF guard ne t h1 ok ts]
    obtain h' where "read_loop line_handler (snd (readline buf)) polls h1
                      = (map Callback (map py_strip ts), h', None)"
      by blast
    with ne t h1 texts show ?thesis
      by (subst read_loop.simps) simp
  qed
qed

subsection \<open>Runs in the example worlds\<close>

lemmas shlex_eval = shlex_split_def py_replace_def whitespace_def quotes_def escape_def
  escapedquotes_def emit_def

lemmas loop_eval = read_loop.simps keep_line_def decode_utf8_def py_strip_def py_isspace_def
  is_cont_def

lemma split_ls: "shlex_split (py_replace (CHR 0x5C) [CHR 0x5C, CHR 0x5C] ''ls -l'') = Inr [''ls'', ''-l'']"
  by (simp add: shlex_eval)

lemma lines_of_indented: "lines_of indented = [[32, 32, 97, 10], [98, 32, 10]]"
  by (simp add: indented_def)

lemma decode_indented:
  "map decode_utf8 (lines_of indented) = map Inr [[32, 32, 97, 10], [98, 32, 10]]"
  by (simp add: lines_of_indented decode_utf8_def)

lemma keep_line_ok: "\<forall>s l. \<exists>s'. keep_line s l = Inr s'"
  by (simp add: keep_line_def)

lemma read_loop_indented:
  "read_loop keep_line indented 2 [] = ([Callback [97], Callback [98]], [[97], [98]], None)"
  by (simp add: loop_eval indented_def)

lemma read_loop_not_utf8:
  "read_loop keep_line not_utf8 2 [] = ([], [], Some UnicodeDecodeError)"
  by (simp add: loop_eval not_utf8_def)

lemma run_indented:
  "run_cmd (world_of indented rc) ''ls -l'' None True (Some keep_line) True [] =
     ([Popen \<lparr>p_args = Argv [''ls'', ''-l''], p_cwd = Some ''/work'', p_stdout = Pipe,
               p_stderr = Stdout, p_shell = False\<rparr>,
       Callback [97], Callback [98]],
      [[97], [98]],
      if rc \<noteq> 0 then Inl (CalledProcessError rc (Line ''ls -l'')) else Inr rc)"
  by (simp add: run_cmd_def split_ls run_blocking_def world_of_def read_loop_indented
                effective_cwd_def print_cmd_header_def print_cmd_footer_def)

lemma run_not_utf8:
  "run_cmd (world_of not_utf8 rc) ''ls -l'' None True (Some keep_line) True [] =
     ([Popen \<lparr>p_args = Argv [''ls'', ''-l''], p_cwd = Some ''/work'', p_stdout = Pipe,
               p_stderr = Stdout, p_shell = False\<rparr>],
      [], Inl UnicodeDecodeError)"
  by (simp add: run_cmd_def split_ls run_blocking_def world_of_def read_loop_not_utf8
                effective_cwd_def print_cmd_header_def print_cmd_footer_def)

subsection \<open>Blocking runs with a callback\<close>

text \<open>
  Claim C3, as amended. Take a command that tokenises, that starts (with its output in a
  pipe and its standard error merged in) and that exits with code 0; let every line of its
  output be valid UTF-8, decoding to \<open>texts\<close>; let the callback return normally on every
  line. Then \<open>run_cmd\<close> with \<open>blocking = True\<close> and that callback returns 0, and the
  callback is called exactly once for each line of the output, in order, on the decoded
  line with the white space removed at both ends.
\<close>

theorem run_cmd_callback_lines:
  assumes tokens: "shlex_split (py_replace (CHR 0x5C) [CHR 0x5C, CHR 0x5C] cmd) = Inr split_cmd"
    and started: "spawn w \<lparr>p_args = Argv split_cmd, p_cwd = Some (effective_cwd w cwd),
                           p_stdout = Pipe, p_stderr = Stdout, p_shell = False\<rparr> = Inr process"
    and exit0: "returncode process = 0"
    and decoded: "map decode_utf8 (lines_of (piped process)) = map Inr texts"
    and handler_ok: "\<forall>s l. \<exists>s'. handler s l = Inr s'"
  shows "snd (snd (run_cmd w cmd cwd silent (Some handler) True h)) = Inr 0
       \<and> callbacks (fst (run_cmd w cmd cwd silent (Some handler) True h)) = map py_strip texts"
proof -
  from read_loop_all_lines [OF handler_ok decoded, of "linger process" h]
  obtain h' where "read_loop handler (piped process) (linger process) h
                    = (map Callback (map py_strip texts), h', None)"
    by blast
  with tokens started exit0 show ?thesis
    by (simp add: run_cmd_def run_blocking_def Let_def callbacks_append callbacks_map_comp
                  callbacks_header callbacks_footer)
qed

text \<open>
  The theorem in the world whose child writes \<open>"  a\\nb \\n"\<close> and exits with 0: the
  callback receives \<open>"a"\<close> and \<open>"b"\<close>.
\<close>

theorem run_cmd_callback_lines_witness:
  "snd (snd (run_cmd (world_of indented 0) ''ls -l'' None False (Some keep_line) True [])) = Inr 0
   \<and> callbacks (fst (run_cmd (world_of indented 0) ''ls -l'' None False (Some keep_line) True []))
       = [[97], [98]]"
proof -
  have started: "spawn (world_of indented 0)
                   \<lparr>p_args = Argv [''ls'', ''-l''],
                      p_cwd = Some (effective_cwd (world_of indented 0) None),
                      p_stdout = Pipe, p_stderr = Stdout, p_shell = False\<rparr>
                 = Inr \<lparr>piped = indented, linger = 2, returncode = 0\<rparr>"
    by (simp add: world_of_def)
  have exit0: "returncode \<lparr>piped = indented, linger = 2, returncode = 0\<rparr> = 0"
    by simp
  have decoded: "map decode_utf8 (lines_of (piped \<lparr>piped = indented, linger = 2, returncode = 0\<rparr>))
                 = map Inr [[32, 32, 97, 10], [98, 32, 10]]"
    by (simp add: decode_indented)
  show ?thesis
    using run_cmd_callback_lines [OF split_ls started exit0 decoded keep_line_ok, of False "[]"]
    by (simp add: py_strip_def py_isspace_def)
qed

text \<open>
  Claim C3 as it is written asks for right-trimmed lines, and for a return of 0 from every
  command that exits with 0. In the same world the first line of the output is
  \<open>"  a\\n"\<close>: right-trimmed it is \<open>"  a"\<close>, and the callback receives \<open>"a"\<close>. And in the
  world whose child writes a byte that is not UTF-8 and exits with 0, the call raises
  \<open>UnicodeDecodeError\<close>.
\<close>

theorem run_cmd_callback_strips_both_ends:
  "map decode_utf8 (lines_of indented) = [Inr [32, 32, 97, 10], Inr [98, 32, 10]]
   \<and> map py_rstrip [[32, 32, 97, 10], [98, 32, 10]] = [[32, 32, 97], [98]]
   \<and> callbacks (fst (run_cmd (world_of indented 0) ''ls -l'' None True (Some keep_line) True []))
       = [[97], [98]]
   \<and> callbacks (fst (run_cmd (world_of indented 0) ''ls -l'' None True (Some keep_line) True []))
       \<noteq> map py_rstrip [[32, 32, 97, 10], [98, 32, 10]]
   \<and> snd (snd (run_cmd (world_of not_utf8 0) ''ls -l'' None True (Some keep_line) True []))
       = Inl UnicodeDecodeError"
  by (simp add: run_indented run_not_utf8 lines_of_indented decode_utf8_def py_rstrip_def
                py_isspace_def)

subsection \<open>The value of a blocking run\<close>

text \<open>
  Claim C9. When \<open>run_cmd\<close> with \<open>blocking = True\<close> returns normally, with or without a
  callback, the value it returns is 0.
\<close>

theorem run_cmd_blocking_returns_zero:
  assumes "run_cmd w cmd cwd silent line_handler True h = (ev, h', Inr rc)"
  shows "rc = 0"
  using assms
  by (auto simp: run_cmd_def run_blocking_def subprocess_run_check_def Let_def
           split: sum.splits option.splits prod.splits if_splits)

text \<open>The theorem at a run that returns: the child of the example world exits with 0.\<close>

theorem run_cmd_blocking_returns_zero_witness:
  "snd (snd (run_cmd (world_of indented 0) ''ls -l'' None True (Some keep_line) True []))
     = Inr (0::int) \<and> (0::int) = 0"
proof -
  have returned: "run_cmd (world_of indented 0) ''ls -l'' None True (Some keep_line) True [] =
     ([Popen \<lparr>p_args = Argv [''ls'', ''-l''], p_cwd = Some ''/work'', p_stdout = Pipe,
               p_stderr = Stdout, p_shell = False\<rparr>,
       Callback [97], Callback [98]],
      [[97], [98]], Inr 0)"
    by (simp add: run_indented)
  show ?thesis
    using run_cmd_blocking_returns_zero [OF returned] returned by simp
qed

subsection \<open>What is started, and what a failure carries\<close>

lemma executed_append: "executed (xs @ ys) = executed xs @ executed ys"
  by (induction xs rule: executed.induct) simp_all

lemma executed_map_comp: "executed (map (Callback \<circ> f) ls) = []"
  by (induction ls) simp_all

lemma executed_header: "executed (print_cmd_header cmd dir silent blocking) = []"
  by (simp add: print_cmd_header_def)

lemma executed_footer: "executed (print_cmd_footer silent) = []"
  by (simp add: print_cmd_footer_def)

text \<open>The reading loop starts no process.\<close>

lemma executed_read_loop:
  "executed (fst (read_loop handler buf polls h)) = []"
proof (induction handler buf polls h rule: read_loop.induct)
  case (1 line_handler buf polls h)
  show ?case
  proof (cases "fst (readline buf) = []")
    case True
    show ?thesis
    proof (cases "polls = 0")
      case True
      with \<open>fst (readline buf) = []\<close> show ?thesis
        by (subst read_loop.simps) simp
    next
      case False
      with True "1.IH"(2) show ?thesis
        by (subst read_loop.simps) simp
    qed
  next
    case False
    show ?thesis
    proof (cases "decode_utf8 (fst (readline buf))")
      case (Inl e)
      with False show ?thesis
        by (subst read_loop.simps) simp
    next
      case (Inr t)
      note decoded = this
      show ?thesis
      proof (cases "line_handler h (py_strip t)")
        case (Inl e)
        with False decoded show ?thesis
          by (subst read_loop.simps) simp
      next
        case (Inr h1)
        note handled = this
        from False have "\<not> (fst (readline buf) = [] \<and> polls = 0)"
          by simp
        from "1.IH"(1) [OF this False decoded handled]
        have "executed (fst (read_loop line_handler (snd (readline buf)) polls h1)) = []" .
        with False decoded handled show ?thesis
          by (subst read_loop.simps) (auto split: prod.splits)
      qed
    qed
  qed
qed

lemma executed_read_loop_result:
  "read_loop handler buf polls h = (ev, h', r) \<Longrightarrow> executed ev = []"
  using executed_read_loop [of handler buf polls h] by simp

text \<open>
  In blocking mode, with or without a callback, and whether or not the start succeeds,
  exactly one \<open>Popen\<close> call is made, and its argument list is the result of
  \<open>shlex.split\<close> on the command with each backslash doubled.
\<close>

lemma run_cmd_blocking_executes_tokens:
  assumes "shlex_split (py_replace (CHR 0x5C) [CHR 0x5C, CHR 0x5C] cmd) = Inr split_cmd"
  shows "executed (fst (run_cmd w cmd cwd silent line_handler True h)) = [Argv split_cmd]"
proof (cases line_handler)
  case None
  with assms show ?thesis
    by (simp add: run_cmd_def run_blocking_def Let_def executed_append executed_header
                  executed_footer split: sum.splits)
next
  case (Some handler)
  with assms show ?thesis
    by (auto simp: run_cmd_def run_blocking_def Let_def executed_append executed_header
                  executed_footer executed_read_loop_result
             split: sum.splits prod.splits option.splits)
qed

text \<open>
  Claim C4, as amended. Take a command that tokenises and whose child exits with a code
  that is not 0, in blocking mode.
  \<^item> Without a callback, \<open>run_cmd\<close> raises \<open>CalledProcessError\<close> with that exit code and
    the list of tokens of the command (the \<open>args\<close> of the process, as
    \<open>subprocess.run\<close> reports them).
  \<^item> With a callback, \<open>run_cmd\<close> does not return normally.
  \<^item> With a callback that returns normally on every line, and output whose lines are all
    valid UTF-8, \<open>run_cmd\<close> raises \<open>CalledProcessError\<close> with that exit code and the
    command text as it was given.
\<close>

theorem run_cmd_nonzero_exit:
  assumes tokens: "shlex_split (py_replace (CHR 0x5C) [CHR 0x5C, CHR 0x5C] cmd) = Inr split_cmd"
    and nonzero: "returncode process \<noteq> 0"
  shows "(spawn w \<lparr>p_args = Argv split_cmd, p_cwd = Some (effective_cwd w cwd),
                   p_stdout = Inherit, p_stderr = Inherit, p_shell = False\<rparr> = Inr process
          \<longrightarrow> snd (snd (run_cmd w cmd cwd silent None True h))
                = Inl (CalledProcessError (returncode process) (Argv split_cmd)))
       \<and> (spawn w \<lparr>p_args = Argv split_cmd, p_cwd = Some (effective_cwd w cwd),
                    p_stdout = Pipe, p_stderr = Stdout, p_shell = False\<rparr> = Inr process
          \<longrightarrow> (\<exists>e. snd (snd (run_cmd w cmd cwd silent (Some handler) True h)) = Inl e))
       \<and> (spawn w \<lparr>p_args = Argv split_cmd, p_cwd = Some (effective_cwd w cwd),
                    p_stdout = Pipe, p_stderr = Stdout, p_shell = False\<rparr> = Inr process
            \<and> map decode_utf8 (lines_of (piped process)) = map Inr texts
            \<and> (\<forall>s l. \<exists>s'. handler s l = Inr s')
          \<longrightarrow> snd (snd (run_cmd w cmd cwd silent (Some handler) True h))
                = Inl (CalledProcessError (returncode process) (Line cmd)))"
proof (intro conjI impI)
  assume "spawn w \<lparr>p_args = Argv split_cmd, p_cwd = Some (effective_cwd w cwd),
                   p_stdout = Inherit, p_stderr = Inherit, p_shell = False\<rparr> = Inr process"
  with tokens nonzero
  show "snd (snd (run_cmd w cmd cwd silent None True h))
          = Inl (CalledProcessError (returncode process) (Argv split_cmd))"
    by (simp add: run_cmd_def run_blocking_def subprocess_run_check_def Let_def)
next
  assume "spawn w \<lparr>p_args = Argv split_cmd, p_cwd = Some (effective_cwd w cwd),
                   p_stdout = Pipe, p_stderr = Stdout, p_shell = False\<rparr> = Inr process"
  with tokens nonzero
  show "\<exists>e. snd (snd (run_cmd w cmd cwd silent (Some handler) True h)) = Inl e"
    by (auto simp: run_cmd_def run_blocking_def Let_def split: prod.splits option.splits)
next
  assume a: "spawn w \<lparr>p_args = Argv split_cmd, p_cwd = Some (effective_cwd w cwd),
                   p_stdout = Pipe, p_stderr = Stdout, p_shell = False\<rparr> = Inr process
            \<and> map decode_utf8 (lines_of (piped process)) = map Inr texts
            \<and> (\<forall>s l. \<exists>s'. handler s l = Inr s')"
  then obtain h' where "read_loop handler (piped process) (linger process) h
                    = (map Callback (map py_strip texts), h', None)"
    using read_loop_all_lines [of handler "piped process" texts "linger process" h] by blast
  with a tokens nonzero
  show "snd (snd (run_cmd w cmd cwd silent (Some handler) True h))
          = Inl (CalledProcessError (returncode process) (Line cmd))"
    by (simp add: run_cmd_def run_blocking_def Let_def)
qed

text \<open>A run without a callback in an example world.\<close>

lemma run_no_handler:
  "run_cmd (world_of out rc) ''ls -l'' None True None True h =
     ([Popen \<lparr>p_args = Argv [''ls'', ''-l''], p_cwd = Some ''/work'', p_stdout = Inherit,
               p_stderr = Inherit, p_shell = False\<rparr>],
      h,
      if rc \<noteq> 0 then Inl (CalledProcessError rc (Argv [''ls'', ''-l''])) else Inr rc)"
  by (simp add: run_cmd_def split_ls run_blocking_def world_of_def subprocess_run_check_def
                effective_cwd_def print_cmd_header_def print_cmd_footer_def)

text \<open>
  The theorem in the world whose child exits with 3: without a callback the error carries
  the tokens, with the callback \<open>keep_line\<close> it carries the command text.
\<close>

theorem run_cmd_nonzero_exit_witness:
  "snd (snd (run_cmd (world_of indented 3) ''ls -l'' None True None True ([]::ustr list)))
     = Inl (CalledProcessError 3 (Argv [''ls'', ''-l'']))
   \<and> snd (snd (run_cmd (world_of indented 3) ''ls -l'' None True (Some keep_line) True []))
     = Inl (CalledProcessError 3 (Line ''ls -l''))"
proof -
  have nonzero: "returncode \<lparr>piped = indented, linger = 2, returncode = 3\<rparr> \<noteq> 0"
    by simp
  show ?thesis
    using run_cmd_nonzero_exit [OF split_ls nonzero, where w = "world_of indented 3"
        and cwd = None and silent = True and h = "[]" and handler = keep_line
        and texts = "[[32, 32, 97, 10], [98, 32, 10]]"]
    by (simp add: world_of_def decode_indented keep_line_ok)
qed

text \<open>
  Claim C4 as it is written asks for an error that carries the exit code and the command
  text, on both paths. Without a callback the error of the command \<open>ls -l\<close> carries the
  list of its two tokens, not the text. With a callback, a child that writes a byte that
  is not UTF-8 and exits with 3 makes the call raise \<open>UnicodeDecodeError\<close>, which carries
  neither the exit code nor the command.
\<close>

theorem run_cmd_failure_payload:
  "snd (snd (run_cmd (world_of indented 3) ''ls -l'' None True None True ([]::ustr list)))
     = Inl (CalledProcessError 3 (Argv [''ls'', ''-l'']))
   \<and> snd (snd (run_cmd (world_of not_utf8 3) ''ls -l'' None True (Some keep_line) True []))
     = Inl UnicodeDecodeError"
  by (simp add: run_no_handler run_not_utf8)

subsection \<open>Non-blocking runs\<close>

text \<open>
  Claim C2. For a command that tokenises, \<open>run_cmd\<close> with \<open>blocking = False\<close> prints the
  header and then raises \<open>TypeError\<close>: it calls \<open>_run_nonblocking\<close> with three arguments,
  and the function takes two. It does not return 0. The exception is not an \<open>OSError\<close>,
  so the \<open>except\<close> clause lets it pass without a word.
\<close>

theorem run_cmd_nonblocking_raises:
  assumes "shlex_split (py_replace (CHR 0x5C) [CHR 0x5C, CHR 0x5C] cmd) = Inr split_cmd"
  shows "run_cmd w cmd cwd silent line_handler False h
           = (print_cmd_header cmd (effective_cwd w cwd) silent False, h, Inl arity_error)"
  using assms by (simp add: run_cmd_def Let_def arity_error_def)

text \<open>The theorem at the command \<open>ls -l\<close>, silent.\<close>

theorem run_cmd_nonblocking_raises_witness:
  "run_cmd (world_of [] 0) ''ls -l'' None True (Some keep_line) False []
     = ([], [], Inl (TypeError ''_run_nonblocking() takes 2 positional arguments''))"
  using run_cmd_nonblocking_raises [OF split_ls, where w = "world_of [] 0" and cwd = None
      and silent = True and line_handler = "Some keep_line" and h = "[]"]
  by (simp add: print_cmd_header_def arity_error_def)

text \<open>
  Claim C8. With \<open>blocking = False\<close> no command string leads to a \<open>Popen\<close> call: no
  token list is executed at all, where the claim says that the tokens of the command are.
  (With \<open>blocking = True\<close> the claim holds: \<open>run_cmd_blocking_executes_tokens\<close>.)
\<close>

theorem run_cmd_nonblocking_executes_nothing:
  "executed (fst (run_cmd w cmd cwd silent line_handler False h)) = []"
  by (simp add: run_cmd_def Let_def executed_header executed_append arity_error_def
           split: sum.splits)

section \<open>Properties of the yes/no prompt\<close>

lemma py_lower_empty: "py_lower typed = [] \<longleftrightarrow> typed = []"
  by (simp add: py_lower_def)

lemma py_lower_Nil: "py_lower [] = []"
  by (simp add: py_lower_def)

lemma map_of_valid:
  "map_of valid s =
     (if s \<in> {''yes'', ''y'', ''ye''} then Some True
      else if s \<in> {''no'', ''n''} then Some False else None)"
  by (simp add: valid_def)

text \<open>
  Claim C5. With \<open>typed\<close> the next line at the terminal:
  \<^item> a default other than \<open>None\<close>, \<open>"yes"\<close> and \<open>"no"\<close> raises \<open>ValueError\<close> before anything
    is printed or read;
  \<^item> with a valid default, a line that is \<open>yes\<close>, \<open>y\<close> or \<open>ye\<close> in any mix of cases gives
    \<open>True\<close>, and one that is \<open>no\<close> or \<open>n\<close> gives \<open>False\<close>, with that one line read;
  \<^item> an empty line gives the truth value of the default, when there is one;
  \<^item> an empty line without a default, and a line that is not empty and not one of the five
    tokens, print the prompt and the reminder and ask again: the call goes on as the call
    on the rest of the input does.
\<close>

theorem query_yes_no_contract:
  "(dflt \<notin> {None, Some ''yes'', Some ''no''}
      \<longrightarrow> (\<exists>msg. query_yes_no question dflt stdin = ([], stdin, Inl (ValueError msg))))
   \<and> (dflt \<in> {None, Some ''yes'', Some ''no''} \<and> py_lower typed \<in> {''yes'', ''y'', ''ye''}
      \<longrightarrow> snd (query_yes_no question dflt (typed # stdin)) = (stdin, Inr True))
   \<and> (dflt \<in> {None, Some ''yes'', Some ''no''} \<and> py_lower typed \<in> {''no'', ''n''}
      \<longrightarrow> snd (query_yes_no question dflt (typed # stdin)) = (stdin, Inr False))
   \<and> (dflt = Some d \<and> d \<in> {''yes'', ''no''}
      \<longrightarrow> snd (query_yes_no question dflt ([] # stdin)) = (stdin, Inr (d = ''yes'')))
   \<and> (dflt \<in> {None, Some ''yes'', Some ''no''}
        \<and> (if typed = [] then dflt = None
            else py_lower typed \<notin> {''yes'', ''y'', ''ye'', ''no'', ''n''})
      \<longrightarrow> (\<exists>prompt. query_yes_no question dflt (typed # stdin)
             = (case query_yes_no question dflt stdin of
                  (ev, rest, r) \<Rightarrow>
                    (Print (question @ '' '' @ prompt) # Print please # ev, rest, r))))"
proof (intro conjI impI)
  assume "dflt \<notin> {None, Some ''yes'', Some ''no''}"
  then show "\<exists>msg. query_yes_no question dflt stdin = ([], stdin, Inl (ValueError msg))"
    by (auto simp: query_yes_no_def prompt_of_def split: option.splits)
next
  assume "dflt \<in> {None, Some ''yes'', Some ''no''} \<and> py_lower typed \<in> {''yes'', ''y'', ''ye''}"
  then show "snd (query_yes_no question dflt (typed # stdin)) = (stdin, Inr True)"
    by (auto simp: query_yes_no_def prompt_of_def map_of_valid)
next
  assume "dflt \<in> {None, Some ''yes'', Some ''no''} \<and> py_lower typed \<in> {''no'', ''n''}"
  then show "snd (query_yes_no question dflt (typed # stdin)) = (stdin, Inr False)"
    by (auto simp: query_yes_no_def prompt_of_def map_of_valid)
next
  assume "dflt = Some d \<and> d \<in> {''yes'', ''no''}"
  then show "snd (query_yes_no question dflt ([] # stdin)) = (stdin, Inr (d = ''yes''))"
    by (auto simp: query_yes_no_def prompt_of_def py_lower_Nil py_getitem_def valid_def)
next
  assume a: "dflt \<in> {None, Some ''yes'', Some ''no''}
        \<and> (if typed = [] then dflt = None
            else py_lower typed \<notin> {''yes'', ''y'', ''ye'', ''no'', ''n''})"
  then obtain prompt where p: "prompt_of dflt = Inr prompt"
    by (auto simp: prompt_of_def)
  have "query_yes_no question dflt (typed # stdin)
             = (case query_yes_no question dflt stdin of
                  (ev, rest, r) \<Rightarrow>
                    (Print (question @ '' '' @ prompt) # Print please # ev, rest, r))"
  proof (cases "typed = []")
    case True
    with a p show ?thesis
      by (simp add: query_yes_no_def py_lower_Nil map_of_valid)
  next
    case False
    with a p show ?thesis
      by (simp add: query_yes_no_def py_lower_empty map_of_valid)
  qed
  then show "\<exists>prompt. query_yes_no question dflt (typed # stdin)
             = (case query_yes_no question dflt stdin of
                  (ev, rest, r) \<Rightarrow>
                    (Print (question @ '' '' @ prompt) # Print please # ev, rest, r))"
    by blast
qed

lemmas lower_eval = py_lower_def lower_char_def char_of_def bit_0

text \<open>
  The theorem at the vectors of the specification and around them: an invalid default;
  \<open>YES\<close> (default \<open>"no"\<close>); \<open>N\<close> (no default); an empty line with default \<open>"yes"\<close>; an
  empty line without a default; and \<open>" y"\<close>, which is not a token.
\<close>

theorem query_yes_no_contract_witness:
  "(\<exists>msg. query_yes_no ''ok?'' (Some ''maybe'') [''y''] = ([], [''y''], Inl (ValueError msg)))
   \<and> snd (query_yes_no ''ok?'' (Some ''no'') [''YES'', ''n'']) = ([''n''], Inr True)
   \<and> snd (query_yes_no ''ok?'' None [''N'', ''y'']) = ([''y''], Inr False)
   \<and> snd (query_yes_no ''ok?'' (Some ''yes'') ['''', ''n'']) = ([''n''], Inr True)
   \<and> (\<exists>prompt. query_yes_no ''ok?'' None ['''', ''y'']
         = (case query_yes_no ''ok?'' None [''y''] of
              (ev, rest, r) \<Rightarrow> (Print (''ok?'' @ '' '' @ prompt) # Print please # ev, rest, r)))
   \<and> (\<exists>prompt. query_yes_no ''ok?'' (Some ''yes'') ['' y'', ''y'']
         = (case query_yes_no ''ok?'' (Some ''yes'') [''y''] of
              (ev, rest, r) \<Rightarrow> (Print (''ok?'' @ '' '' @ prompt) # Print please # ev, rest, r)))"
proof -
  have l1: "py_lower ''YES'' = ''yes''" and l2: "py_lower ''N'' = ''n''"
    and l3: "py_lower '' y'' = '' y''"
    by (simp_all add: lower_eval)
  show ?thesis
    using query_yes_no_contract [of "Some ''maybe''" "''ok?''" "[''y'']" "''y''" "''x''"]
      query_yes_no_contract [of "Some ''no''" "''ok?''" "[''n'']" "''YES''" "''no''"]
      query_yes_no_contract [of None "''ok?''" "[''y'']" "''N''" "''no''"]
      query_yes_no_contract [of "Some ''yes''" "''ok?''" "[''n'']" "''y''" "''yes''"]
      query_yes_no_contract [of None "''ok?''" "[''y'']" "[]" "''no''"]
      query_yes_no_contract [of "Some ''yes''" "''ok?''" "[''y'']" "'' y''" "''yes''"]
    by (simp add: l1 l2 l3)
qed

section \<open>Properties of the repository check\<close>

text \<open>
  Claim C6, as amended. Let the status query start, and let the debug override be unset.
  \<^item> When the query writes nothing, the result is \<open>(True, "")\<close>.
  \<^item> When it writes bytes that are valid UTF-8, the result is \<open>(False, s)\<close>, where \<open>s\<close> is
    the text of the status command, a line feed, and the decoded output.
  \<^item> When it writes bytes that are not valid UTF-8, the call raises the decoding error.
  \<^item> A result \<open>(True, detail)\<close> is returned only when the query wrote nothing, and then
    \<open>detail\<close> is empty.
\<close>

theorem repo_clean_result:
  assumes "spawn w status_call = Inr process"
  shows "(piped process = [] \<longrightarrow> snd (repo_clean w None) = Inr (True, []))
       \<and> (piped process \<noteq> [] \<and> decode_utf8 (piped process) = Inr decoded
            \<longrightarrow> snd (repo_clean w None) = Inr (False, ustr_of status_cmd @ [10] @ decoded))
       \<and> (piped process \<noteq> [] \<and> decode_utf8 (piped process) = Inl e
            \<longrightarrow> snd (repo_clean w None) = Inl e)
       \<and> (snd (repo_clean w None) = Inr (True, detail) \<longrightarrow> piped process = [] \<and> detail = [])"
  using assms by (auto simp: repo_clean_def Let_def split: sum.splits)

lemma decode_modified: "decode_utf8 [32, 77, 32, 97, 10] = Inr [32, 77, 32, 97, 10]"
  by (simp add: decode_utf8_def)

text \<open>
  The theorem in three worlds: a clean repository, one whose status is \<open>" M a\\n"\<close>, and
  one whose status holds a byte that is not UTF-8.
\<close>

theorem repo_clean_result_witness:
  "snd (repo_clean (world_of [] 0) None) = Inr (True, [])
   \<and> snd (repo_clean (world_of [32, 77, 32, 97, 10] 0) None)
       = Inr (False, ustr_of ''git status --porcelain'' @ [10] @ [32, 77, 32, 97, 10])
   \<and> snd (repo_clean (world_of not_utf8 0) None) = Inl UnicodeDecodeError"
proof -
  have s1: "spawn (world_of [] 0) status_call = Inr \<lparr>piped = [], linger = 2, returncode = 0\<rparr>"
    and s2: "spawn (world_of [32, 77, 32, 97, 10] 0) status_call
              = Inr \<lparr>piped = [32, 77, 32, 97, 10], linger = 2, returncode = 0\<rparr>"
    and s3: "spawn (world_of not_utf8 0) status_call
              = Inr \<lparr>piped = not_utf8, linger = 2, returncode = 0\<rparr>"
    by (simp_all add: world_of_def)
  have d3: "decode_utf8 not_utf8 = Inl UnicodeDecodeError" and n3: "not_utf8 \<noteq> []"
    by (simp_all add: decode_utf8_def not_utf8_def)
  show ?thesis
    using repo_clean_result [OF s1, where decoded = "[]" and e = OSError and detail = "[]"]
      repo_clean_result [OF s2, where decoded = "[32, 77, 32, 97, 10]" and e = OSError
        and detail = "[]"]
      repo_clean_result [OF s3, where decoded = "[]" and e = UnicodeDecodeError
        and detail = "[]"]
    by (simp add: decode_modified d3 n3 status_cmd_def)
qed

text \<open>
  Claim C6 as it is written says that every output that is not empty gives \<open>(False, s)\<close>.
  When the status output holds a byte that is not UTF-8 (a file name in another encoding,
  printed unquoted), the output is not empty and the call raises \<open>UnicodeDecodeError\<close>.
\<close>

theorem repo_clean_undecodable_status:
  "piped \<lparr>piped = not_utf8, linger = 2, returncode = 0\<rparr> \<noteq> []
   \<and> spawn (world_of not_utf8 0) status_call = Inr \<lparr>piped = not_utf8, linger = 2, returncode = 0\<rparr>
   \<and> repo_clean (world_of not_utf8 0) None = ([Popen status_call], Inl UnicodeDecodeError)"
  by (simp add: repo_clean_def world_of_def not_utf8_def decode_utf8_def)

end
